theory Spec2Isabelle
  imports Main "HOL-Library.Word"
begin

section \<open>Data model\<close>

text \<open>
  Go's \<open>int32\<close> and \<open>uint64\<close> are 32-bit and 64-bit words; \<open>sint\<close> reads an
  \<open>int32\<close> as two's complement, \<open>uint\<close> and \<open>unat\<close> read a word as unsigned.
\<close>

type_synonym int32 = "32 word"
type_synonym uint64 = "64 word"

text \<open>
  Modelled from the spec: \<open>webrtc.ICECandidateStats\<close> and \<open>webrtc.ICECandidatePairStats\<close>
  are types of the transport library, whose declarations are not part of the program.
  The records below hold the fields the program reads. The two enumeration fields
  (\<open>NetworkType\<close>, \<open>CandidateType\<close>) are integer codes whose Go zero value is 0;
  \<open>Port\<close> and \<open>Priority\<close> are \<open>int32\<close>, as the parameters of \<open>getPriority\<close>
  that receive \<open>Priority\<close> are.
\<close>

record ICECandidateStats =
  ID :: string
  NetworkType :: nat
  IP :: string
  Port :: int32
  Protocol :: string
  CandidateType :: nat
  Priority :: int32
  RelayProtocol :: string

record ICECandidatePairStats =
  LocalCandidateID :: string
  RemoteCandidateID :: string
  Nominated :: bool

text \<open>The Go zero value \<open>webrtc.ICECandidateStats{}\<close>: every field empty or zero.\<close>

definition ICECandidateStats_zero :: ICECandidateStats where
  "ICECandidateStats_zero =
     \<lparr>ID = [], NetworkType = 0, IP = [], Port = 0, Protocol = [],
      CandidateType = 0, Priority = 0, RelayProtocol = []\<rparr>"

record candidatePair =
  localID :: string
  remoteID :: string

record setCandidateStats =
  candidates :: "ICECandidateStats list"
  nominatedCandidatePairs :: "candidatePair list"

text \<open>
  The values of the statistics report: the type switch of \<open>newSetCandidateStats\<close> tells
  candidate-pair records and candidate records from records of every other kind.
  \<open>pc.GetStats()\<close> returns a Go map; the report is modelled as the list of its
  entries in the order in which the \<open>range\<close> statement enumerates them.
\<close>

datatype Stats =
    PairStats ICECandidatePairStats
  | CandidateStats ICECandidateStats
  | OtherStats

type_synonym StatsReport = "(string \<times> Stats) list"

text \<open>
  The values of \<open>interface{}\<close> that \<open>getSetCandidates\<close> stores: \<open>nil\<close>, the fields
  of a report, and the \<open>[]interface{}\<close> that holds one report.
\<close>

datatype iface =
    INil
  | IUint64 uint64
  | INetworkType nat
  | ICandidateType nat
  | IString string
  | IInt32 int32
  | ISlice "iface list"

section \<open>Snapshot constructor\<close>

text \<open>
  The loop of \<open>newSetCandidateStats\<close>, with its two slices as accumulators; \<open>append\<close>
  adds at the end. The map key is ignored, as in the source.
\<close>

fun newSetCandidateStats_loop ::
  "StatsReport \<Rightarrow> candidatePair list \<Rightarrow> ICECandidateStats list \<Rightarrow> setCandidateStats" where
  "newSetCandidateStats_loop [] ncps cands =
     \<lparr>candidates = cands, nominatedCandidatePairs = ncps\<rparr>"
| "newSetCandidateStats_loop ((k, v) # rest) ncps cands =
     (case v of
        PairStats t \<Rightarrow>
          (if Nominated t
           then newSetCandidateStats_loop rest
                  (ncps @ [\<lparr>localID = LocalCandidateID t, remoteID = RemoteCandidateID t\<rparr>])
                  cands
           else newSetCandidateStats_loop rest ncps cands)
      | CandidateStats t \<Rightarrow> newSetCandidateStats_loop rest ncps (cands @ [t])
      | OtherStats \<Rightarrow> newSetCandidateStats_loop rest ncps cands)"

definition newSetCandidateStats :: "StatsReport \<Rightarrow> setCandidateStats" where
  "newSetCandidateStats stats = newSetCandidateStats_loop stats [] []"

text \<open>
  The partition in the words of the specification: each candidate record contributes
  itself to the candidate collection, each pair record whose nominated flag is set
  contributes its two identifiers to the nominated-pair collection, and nothing else
  contributes.
\<close>

fun candidateRecords_of :: "Stats \<Rightarrow> ICECandidateStats list" where
  "candidateRecords_of (CandidateStats t) = [t]"
| "candidateRecords_of (PairStats t) = []"
| "candidateRecords_of OtherStats = []"

fun nominatedPairs_of :: "Stats \<Rightarrow> candidatePair list" where
  "nominatedPairs_of (PairStats t) =
     (if Nominated t
      then [\<lparr>localID = LocalCandidateID t, remoteID = RemoteCandidateID t\<rparr>] else [])"
| "nominatedPairs_of (CandidateStats t) = []"
| "nominatedPairs_of OtherStats = []"

section \<open>Candidate lookup\<close>

text \<open>
  \<open>getCandidateStats\<close> ranges over \<open>scs.candidates\<close> and returns at the first record
  whose \<open>ID\<close> equals the argument; after the loop it returns the zero value.
\<close>

fun getCandidateStats_loop :: "ICECandidateStats list \<Rightarrow> string \<Rightarrow> ICECandidateStats" where
  "getCandidateStats_loop [] i = ICECandidateStats_zero"
| "getCandidateStats_loop (c # cs) i =
     (if ID c = i then c else getCandidateStats_loop cs i)"

definition getCandidateStats :: "setCandidateStats \<Rightarrow> string \<Rightarrow> ICECandidateStats" where
  "getCandidateStats scs i = getCandidateStats_loop (candidates scs) i"

section \<open>Priority scorer\<close>

text \<open>
  \<open>getPriority\<close> converts its two \<open>int32\<close> arguments to \<open>float64\<close>, computes
  \<open>(1<<32-1)*math.Min(rp, lp) + 2*math.Max(rp, lp)\<close> in \<open>float64\<close> and converts the
  result to \<open>uint64\<close>. Every value that occurs is an integer of magnitude below
  \<open>2^64\<close>, so a \<open>float64\<close> is modelled by the integer it holds, and an arithmetic
  operation by the exact integer operation followed by rounding to a 53-bit significand,
  to nearest, ties to even (IEEE 754 binary64).

  \<open>bit_length n\<close> is the number of binary digits of \<open>n\<close>; \<open>round_half_even e v\<close>
  rounds \<open>v\<close> to a multiple of \<open>2^e\<close>.
\<close>

fun bit_length :: "nat \<Rightarrow> nat" where
  "bit_length n = (if n = 0 then 0 else Suc (bit_length (n div 2)))"

declare bit_length.simps [simp del]

definition round_half_even :: "nat \<Rightarrow> nat \<Rightarrow> nat" where
  "round_half_even e v =
     (let q = v div 2 ^ e; r = v mod 2 ^ e in
      if 2 ^ e < 2 * r \<or> (2 * r = 2 ^ e \<and> odd q) then (q + 1) * 2 ^ e else q * 2 ^ e)"

definition round53 :: "nat \<Rightarrow> nat" where
  "round53 v = round_half_even (bit_length v - 53) v"

definition float64_round :: "int \<Rightarrow> int" where
  "float64_round v = (if v < 0 then - int (round53 (nat (- v))) else int (round53 (nat v)))"

text \<open>
  Two things are left to the Go implementation, and are parameters of the model.
  \<^item> The language allows an implementation to fuse \<open>x*y + z\<close> into one operation that
    rounds once (\<open>fused\<close>); otherwise the product is rounded and then the sum.
  \<^item> The conversion of a \<open>float64\<close> to \<open>uint64\<close> truncates; when the value is not
    representable in \<open>uint64\<close> the conversion still succeeds, with an
    implementation-dependent result (\<open>conv_oor\<close>).
\<close>

record arch =
  fused :: bool
  conv_oor :: "int \<Rightarrow> uint64"

definition float64_to_uint64 :: "arch \<Rightarrow> int \<Rightarrow> uint64" where
  "float64_to_uint64 a v = (if 0 \<le> v \<and> v < 2 ^ 64 then word_of_int v else conv_oor a v)"

definition getPriority :: "arch \<Rightarrow> int32 \<Rightarrow> int32 \<Rightarrow> uint64" where
  "getPriority a lp rp =
     (let lo = min (sint rp) (sint lp);
          hi = max (sint rp) (sint lp);
          t = float64_round (2 * hi);
          s = (if fused a then float64_round ((2 ^ 32 - 1) * lo + t)
               else float64_round (float64_round ((2 ^ 32 - 1) * lo) + t))
      in float64_to_uint64 a s)"

text \<open>
  Two implementations, for the inputs on which the conversion is out of range. On x86-64
  the sum is not fused, and the conversion instruction yields the two's complement of a
  negative value down to \<open>- 2^63\<close> and the pattern \<open>2^63\<close> below that. On ARM64
  the sum is fused and the conversion saturates: a negative value gives \<open>0\<close>. A sum of
  \<open>2^64\<close> or more does not occur in \<open>getPriority\<close>.
\<close>

definition arch_wrapping :: arch where
  "arch_wrapping =
     \<lparr>fused = False,
      conv_oor = (\<lambda>v. if - (2 ^ 63) \<le> v \<and> v < 0 then word_of_int v else 2 ^ 63)\<rparr>"

definition arch_saturating :: arch where
  "arch_saturating = \<lparr>fused = True, conv_oor = (\<lambda>v. if v < 0 then 0 else - 1)\<rparr>"

text \<open>The sum before the conversion, as a function of the smaller and the larger input.\<close>

definition float64_sum :: "bool \<Rightarrow> int \<Rightarrow> int \<Rightarrow> int" where
  "float64_sum f lo hi =
     (if f then float64_round (4294967295 * lo + float64_round (2 * hi))
      else float64_round (float64_round (4294967295 * lo) + float64_round (2 * hi)))"

section \<open>Pair report builder\<close>

text \<open>
  \<open>getSetCandidates\<close> makes a slice of \<open>len(scs.nominatedCandidatePairs)\<close> elements
  (each \<open>nil\<close>) and then, for every nominated pair in order, appends one report to it;
  \<open>pairReport\<close> is the report that the loop body builds for a pair.
  The console output of the loop is not modelled.
\<close>

definition pairReport :: "arch \<Rightarrow> setCandidateStats \<Rightarrow> candidatePair \<Rightarrow> iface" where
  "pairReport a scs ncp =
     (let localCandidate = getCandidateStats scs (localID ncp);
          remoteCandidate = getCandidateStats scs (remoteID ncp);
          priority = getPriority a (Priority localCandidate) (Priority remoteCandidate)
      in ISlice
           [IUint64 priority,
            INetworkType (NetworkType localCandidate), IString (Protocol localCandidate),
            ICandidateType (CandidateType localCandidate), IString (IP localCandidate),
            IInt32 (Port localCandidate), IString (RelayProtocol localCandidate),
            INetworkType (NetworkType remoteCandidate), IString (Protocol remoteCandidate),
            ICandidateType (CandidateType remoteCandidate), IString (IP remoteCandidate),
            IInt32 (Port remoteCandidate), IString (RelayProtocol remoteCandidate)])"

fun getSetCandidates_loop ::
  "arch \<Rightarrow> setCandidateStats \<Rightarrow> candidatePair list \<Rightarrow> iface list \<Rightarrow> iface list" where
  "getSetCandidates_loop a scs [] setCandidates = setCandidates"
| "getSetCandidates_loop a scs (ncp # rest) setCandidates =
     getSetCandidates_loop a scs rest (setCandidates @ [pairReport a scs ncp])"

definition getSetCandidates :: "arch \<Rightarrow> setCandidateStats \<Rightarrow> iface list" where
  "getSetCandidates a scs =
     getSetCandidates_loop a scs (nominatedCandidatePairs scs)
       (replicate (length (nominatedCandidatePairs scs)) INil)"

section \<open>Signaling handler\<close>

text \<open>
  \<open>doSignaling\<close> is a straight-line sequence of calls into the transport library, the
  JSON codec and the response writer; every error is answered by \<open>panic\<close>, and the
  receive from the channel \<open>gatherComplete\<close> blocks until the gathering-complete promise
  fires. The outcomes of the external calls are the environment of one request.
  The promise is fired by the transport, concurrently with the handler: \<open>gathered_at\<close>
  is the instant at which it fires, on the clock that counts the handler's steps
  (\<open>None\<close>: it never fires). The two callbacks that the handler registers run in other
  flows and do not use the response writer; they are not part of the model.
\<close>

type_synonym bytes = "8 word list"
type_synonym error = string

record SessionDescription =
  sdpType :: string
  SDP :: string

record env =
  newPeerConnection :: "error option"
  decode :: "bytes \<Rightarrow> error + SessionDescription"
  setRemoteDescription :: "SessionDescription \<Rightarrow> error option"
  createAnswer :: "error + SessionDescription"
  setLocalDescription :: "SessionDescription \<Rightarrow> error option"
  gathered_at :: "nat option"
  localDescription :: "nat \<Rightarrow> SessionDescription"
  marshal :: "SessionDescription \<Rightarrow> error + bytes"
  writeBody :: "bytes \<Rightarrow> error option"

text \<open>The program points of \<open>doSignaling\<close>: the next statement to run.\<close>

datatype location =
    AtNewPeerConnection
  | AtDecode
  | AtSetRemoteDescription SessionDescription
  | AtGatheringCompletePromise
  | AtCreateAnswer
  | AtSetLocalDescription SessionDescription
  | AtAwaitGatherComplete
  | AtMarshal
  | AtSetHeader bytes
  | AtWrite bytes
  | Returned
  | Panicked error

text \<open>
  The state of one request: the program point, the clock, the headers set on the response
  writer, and the calls of \<open>w.Write\<close> made so far, each with the instant of the call.
\<close>

record handler =
  loc :: location
  clock :: nat
  headers :: "(string \<times> string) list"
  written :: "(nat \<times> bytes) list"

definition fired :: "env \<Rightarrow> nat \<Rightarrow> bool" where
  "fired e t = (case gathered_at e of None \<Rightarrow> False | Some g \<Rightarrow> g \<le> t)"

definition goto :: "location \<Rightarrow> handler \<Rightarrow> handler" where
  "goto l s = s\<lparr>loc := l, clock := Suc (clock s)\<rparr>"

text \<open>
  One step of the handler on the request body \<open>body\<close>. A blocked receive and a finished
  handler let the clock advance and change nothing else. \<open>doSignaling e body n\<close> is the
  state of the request after \<open>n\<close> steps.
\<close>

fun doSignaling_step :: "env \<Rightarrow> bytes \<Rightarrow> handler \<Rightarrow> handler" where
  "doSignaling_step e body s =
     (case loc s of
        AtNewPeerConnection \<Rightarrow>
          (case newPeerConnection e of
             Some err \<Rightarrow> goto (Panicked err) s
           | None \<Rightarrow> goto AtDecode s)
      | AtDecode \<Rightarrow>
          (case decode e body of
             Inl err \<Rightarrow> goto (Panicked err) s
           | Inr offer \<Rightarrow> goto (AtSetRemoteDescription offer) s)
      | AtSetRemoteDescription offer \<Rightarrow>
          (case setRemoteDescription e offer of
             Some err \<Rightarrow> goto (Panicked err) s
           | None \<Rightarrow> goto AtGatheringCompletePromise s)
      | AtGatheringCompletePromise \<Rightarrow> goto AtCreateAnswer s
      | AtCreateAnswer \<Rightarrow>
          (case createAnswer e of
             Inl err \<Rightarrow> goto (Panicked err) s
           | Inr answer \<Rightarrow> goto (AtSetLocalDescription answer) s)
      | AtSetLocalDescription answer \<Rightarrow>
          (case setLocalDescription e answer of
             Some err \<Rightarrow> goto (Panicked err) s
           | None \<Rightarrow> goto AtAwaitGatherComplete s)
      | AtAwaitGatherComplete \<Rightarrow>
          (if fired e (clock s) then goto AtMarshal s else goto AtAwaitGatherComplete s)
      | AtMarshal \<Rightarrow>
          (case marshal e (localDescription e (clock s)) of
             Inl err \<Rightarrow> goto (Panicked err) s
           | Inr response \<Rightarrow> goto (AtSetHeader response) s)
      | AtSetHeader response \<Rightarrow>
          goto (AtWrite response)
            (s\<lparr>headers := headers s @ [(''Content-Type'', ''application/json'')]\<rparr>)
      | AtWrite response \<Rightarrow>
          (case writeBody e response of
             Some err \<Rightarrow> goto (Panicked err) (s\<lparr>written := written s @ [(clock s, response)]\<rparr>)
           | None \<Rightarrow> goto Returned (s\<lparr>written := written s @ [(clock s, response)]\<rparr>))
      | Returned \<Rightarrow> goto Returned s
      | Panicked err \<Rightarrow> goto (Panicked err) s)"

declare doSignaling_step.simps [simp del]

definition doSignaling_init :: handler where
  "doSignaling_init = \<lparr>loc = AtNewPeerConnection, clock = 0, headers = [], written = []\<rparr>"

fun doSignaling :: "env \<Rightarrow> bytes \<Rightarrow> nat \<Rightarrow> handler" where
  "doSignaling e body 0 = doSignaling_init"
| "doSignaling e body (Suc n) = doSignaling_step e body (doSignaling e body n)"



text \<open>The program points after the receive from the promise.\<close>

fun past_barrier :: "location \<Rightarrow> bool" where
  "past_barrier AtMarshal = True"
| "past_barrier (AtSetHeader response) = True"
| "past_barrier (AtWrite response) = True"
| "past_barrier Returned = True"
| "past_barrier l = False"

section \<open>Auxiliary definitions\<close>

text \<open>
  The invariant of the handler: every call of \<open>w.Write\<close> was made at an instant at which
  the promise had fired, and so is every instant at which the handler is past the receive.
\<close>

definition barrier_inv :: "env \<Rightarrow> handler \<Rightarrow> bool" where
  "barrier_inv e s \<longleftrightarrow>
     (\<forall>(t, b) \<in> set (written s). fired e t) \<and> (past_barrier (loc s) \<longrightarrow> fired e (clock s))"

text \<open>The priority that a report carries: its first field.\<close>

definition report_priority :: "iface \<Rightarrow> uint64 option" where
  "report_priority x = (case x of ISlice (IUint64 p # rest) \<Rightarrow> Some p | _ \<Rightarrow> None)"

text \<open>
  The snapshot of the specification's scenario: candidates \<open>L1\<close> (priority 100) and
  \<open>R1\<close> (priority 200), and the nominated pair \<open>(L1, R1)\<close>.
\<close>

definition scenario :: setCandidateStats where
  "scenario =
     \<lparr>candidates = [ICECandidateStats_zero\<lparr>ID := ''L1'', Priority := 100\<rparr>,
                    ICECandidateStats_zero\<lparr>ID := ''R1'', Priority := 200\<rparr>],
      nominatedCandidatePairs = [\<lparr>localID = ''L1'', remoteID = ''R1''\<rparr>]\<rparr>"

text \<open>
  An environment in which every call succeeds, except that the decoder rejects the empty
  body; the promise fires at the instant given.
\<close>

definition example_env :: "nat option \<Rightarrow> env" where
  "example_env g =
     \<lparr>newPeerConnection = None,
      decode = (\<lambda>b. if b = [] then Inl ''unexpected end of JSON input''
                     else Inr \<lparr>sdpType = ''offer'', SDP = ''v=0''\<rparr>),
      setRemoteDescription = (\<lambda>d. None),
      createAnswer = Inr \<lparr>sdpType = ''answer'', SDP = ''v=0''\<rparr>,
      setLocalDescription = (\<lambda>d. None),
      gathered_at = g,
      localDescription = (\<lambda>t. \<lparr>sdpType = ''answer'', SDP = ''v=0 a=candidate''\<rparr>),
      marshal = (\<lambda>d. Inr [1, 2, 3]),
      writeBody = (\<lambda>b. None)\<rparr>"

section \<open>The snapshot constructor partitions the report\<close>

lemma newSetCandidateStats_loop_eq:
  "newSetCandidateStats_loop stats ncps cands =
     \<lparr>candidates = cands @ concat (map (candidateRecords_of \<circ> snd) stats),
      nominatedCandidatePairs = ncps @ concat (map (nominatedPairs_of \<circ> snd) stats)\<rparr>"
proof (induction stats ncps cands rule: newSetCandidateStats_loop.induct)
  case (1 ncps cands)
  show ?case by simp
next
  case (2 k v rest ncps cands)
  show ?case
  proof (cases v)
    case (PairStats t)
    with 2 show ?thesis by (cases "Nominated t") simp_all
  next
    case (CandidateStats t)
    with 2 show ?thesis by simp
  next
    case OtherStats
    with 2 show ?thesis by simp
  qed
qed

text \<open>
  C7. For every statistics report, \<open>newSetCandidateStats\<close> returns a snapshot (it has no
  error result) whose candidate collection holds every candidate record of the report
  and whose nominated-pair collection holds the identifiers of exactly the pair records
  with the nominated flag set; pair records without the flag and records of any other
  kind contribute nothing; both collections are in the order in which the report is
  enumerated; the empty report gives the empty snapshot.
\<close>

theorem newSetCandidateStats_partition:
  "candidates (newSetCandidateStats stats) = concat (map (candidateRecords_of \<circ> snd) stats)
   \<and> nominatedCandidatePairs (newSetCandidateStats stats)
       = concat (map (nominatedPairs_of \<circ> snd) stats)
   \<and> newSetCandidateStats [] = \<lparr>candidates = [], nominatedCandidatePairs = []\<rparr>"
  by (simp add: newSetCandidateStats_def newSetCandidateStats_loop_eq)

theorem newSetCandidateStats_partition_witness:
  "newSetCandidateStats
     [(''p1'', PairStats \<lparr>LocalCandidateID = ''L2'', RemoteCandidateID = ''R2'', Nominated = False\<rparr>),
      (''c1'', CandidateStats (ICECandidateStats_zero\<lparr>ID := ''R1''\<rparr>)),
      (''t'', OtherStats),
      (''p2'', PairStats \<lparr>LocalCandidateID = ''L1'', RemoteCandidateID = ''R1'', Nominated = True\<rparr>),
      (''c2'', CandidateStats (ICECandidateStats_zero\<lparr>ID := ''L1''\<rparr>))]
   = \<lparr>candidates = [ICECandidateStats_zero\<lparr>ID := ''R1''\<rparr>, ICECandidateStats_zero\<lparr>ID := ''L1''\<rparr>],
      nominatedCandidatePairs = [\<lparr>localID = ''L1'', remoteID = ''R1''\<rparr>]\<rparr>"
  using newSetCandidateStats_partition
    [of "[(''p1'', PairStats \<lparr>LocalCandidateID = ''L2'', RemoteCandidateID = ''R2'', Nominated = False\<rparr>),
          (''c1'', CandidateStats (ICECandidateStats_zero\<lparr>ID := ''R1''\<rparr>)),
          (''t'', OtherStats),
          (''p2'', PairStats \<lparr>LocalCandidateID = ''L1'', RemoteCandidateID = ''R1'', Nominated = True\<rparr>),
          (''c2'', CandidateStats (ICECandidateStats_zero\<lparr>ID := ''L1''\<rparr>))]"]
  by (simp add: setCandidateStats.equality)

section \<open>The candidate lookup\<close>

lemma getCandidateStats_loop_miss:
  "\<forall>c \<in> set cs. ID c \<noteq> i \<Longrightarrow> getCandidateStats_loop cs i = ICECandidateStats_zero"
  by (induction cs) simp_all

lemma getCandidateStats_loop_first:
  "\<forall>x \<in> set pre. ID x \<noteq> i \<Longrightarrow> ID c = i \<Longrightarrow>
   getCandidateStats_loop (pre @ c # post) i = c"
  by (induction pre) simp_all

text \<open>
  C6. The lookup is a total function with no error result. On a snapshot whose candidate
  collection is empty, or in which no record carries the identifier, it returns the
  zero-value record.
\<close>

theorem getCandidateStats_miss_zero:
  "candidates scs = [] \<or> (\<forall>c \<in> set (candidates scs). ID c \<noteq> i) \<Longrightarrow>
   getCandidateStats scs i = ICECandidateStats_zero"
  unfolding getCandidateStats_def
  by (rule getCandidateStats_loop_miss) auto

theorem getCandidateStats_miss_zero_witness:
  "getCandidateStats \<lparr>candidates = [], nominatedCandidatePairs = []\<rparr> ''L1''
     = ICECandidateStats_zero
   \<and> getCandidateStats
       \<lparr>candidates = [ICECandidateStats_zero\<lparr>ID := ''R1'', Priority := 200\<rparr>],
        nominatedCandidatePairs = []\<rparr> ''L1''
     = ICECandidateStats_zero"
  using getCandidateStats_miss_zero
          [of "\<lparr>candidates = [], nominatedCandidatePairs = []\<rparr>" "''L1''"]
        getCandidateStats_miss_zero
          [of "\<lparr>candidates = [ICECandidateStats_zero\<lparr>ID := ''R1'', Priority := 200\<rparr>],
                nominatedCandidatePairs = []\<rparr>" "''L1''"]
  by (simp add: ICECandidateStats_zero_def)

text \<open>
  C10. When several records of the candidate collection carry the requested identifier,
  the lookup returns the first of them in collection order: whatever follows the first
  match (further matches included) is never inspected, and nothing checks that
  identifiers are unique.
\<close>

theorem getCandidateStats_first_match:
  "candidates scs = pre @ c # post \<Longrightarrow> \<forall>x \<in> set pre. ID x \<noteq> i \<Longrightarrow> ID c = i \<Longrightarrow>
   getCandidateStats scs i = c"
  unfolding getCandidateStats_def
  by (simp add: getCandidateStats_loop_first)

theorem getCandidateStats_first_match_witness:
  "getCandidateStats
     \<lparr>candidates = [ICECandidateStats_zero\<lparr>ID := ''R1'', Priority := 200\<rparr>,
                    ICECandidateStats_zero\<lparr>ID := ''L1'', Priority := 100\<rparr>,
                    ICECandidateStats_zero\<lparr>ID := ''L1'', Priority := 7\<rparr>],
      nominatedCandidatePairs = []\<rparr> ''L1''
   = ICECandidateStats_zero\<lparr>ID := ''L1'', Priority := 100\<rparr>"
  using getCandidateStats_first_match
          [of "\<lparr>candidates = [ICECandidateStats_zero\<lparr>ID := ''R1'', Priority := 200\<rparr>,
                               ICECandidateStats_zero\<lparr>ID := ''L1'', Priority := 100\<rparr>,
                               ICECandidateStats_zero\<lparr>ID := ''L1'', Priority := 7\<rparr>],
                nominatedCandidatePairs = []\<rparr>"
              "[ICECandidateStats_zero\<lparr>ID := ''R1'', Priority := 200\<rparr>]"
              "ICECandidateStats_zero\<lparr>ID := ''L1'', Priority := 100\<rparr>"
              "[ICECandidateStats_zero\<lparr>ID := ''L1'', Priority := 7\<rparr>]"
              "''L1''"]
  by (simp add: ICECandidateStats_zero_def)

section \<open>Rounding to a 53-bit significand\<close>

lemma bit_length_lt: "n < 2 ^ bit_length n"
proof (induction n rule: bit_length.induct)
  case (1 n)
  show ?case
  proof (cases "n = 0")
    case True then show ?thesis by simp
  next
    case False
    with 1 have "n div 2 < 2 ^ bit_length (n div 2)" by simp
    then have "n < 2 * 2 ^ bit_length (n div 2)" by linarith
    with False show ?thesis by (subst bit_length.simps) simp
  qed
qed

lemma bit_length_ge: "0 < n \<Longrightarrow> 2 ^ (bit_length n - 1) \<le> n"
proof (induction n rule: bit_length.induct)
  case (1 n)
  show ?case
  proof (cases "n div 2 = 0")
    case True
    with 1 have "n = 1" by (simp add: div_eq_0_iff) 
    then show ?thesis by (simp add: bit_length.simps)
  next
    case False
    with 1 have ih: "2 ^ (bit_length (n div 2) - 1) \<le> n div 2" by simp
    from False have pos: "0 < bit_length (n div 2)" by (subst bit_length.simps) simp
    have "bit_length n = Suc (bit_length (n div 2))" using 1(2) by (subst bit_length.simps) simp
    then have "(2::nat) ^ (bit_length n - 1) = 2 * 2 ^ (bit_length (n div 2) - 1)"
      using pos by (cases "bit_length (n div 2)") simp_all
    with ih show ?thesis by linarith
  qed
qed

lemma bit_length_le: "n < 2 ^ k \<Longrightarrow> bit_length n \<le> k"
proof (rule ccontr)
  assume lt: "n < 2 ^ k" and "\<not> bit_length n \<le> k"
  then have k: "k \<le> bit_length n - 1" by simp
  then have "0 < n" using \<open>\<not> bit_length n \<le> k\<close> by (cases "n = 0") (simp_all add: bit_length.simps)
  then have "2 ^ (bit_length n - 1) \<le> n" by (rule bit_length_ge)
  moreover have "(2::nat) ^ k \<le> 2 ^ (bit_length n - 1)" using k by (simp add: power_increasing)
  ultimately show False using lt by linarith
qed

lemma bit_length_mono: "m \<le> n \<Longrightarrow> bit_length m \<le> bit_length n"
  by (rule bit_length_le) (use bit_length_lt [of n] in linarith)

lemma bit_length_eq: "2 ^ k \<le> n \<Longrightarrow> n < 2 ^ Suc k \<Longrightarrow> bit_length n = Suc k"
proof -
  assume a: "2 ^ k \<le> n" and b: "n < 2 ^ Suc k"
  have "bit_length n \<le> Suc k" using b by (rule bit_length_le)
  moreover have "\<not> bit_length n \<le> k"
  proof
    assume "bit_length n \<le> k"
    then have "(2::nat) ^ bit_length n \<le> 2 ^ k" by (simp add: power_increasing)
    with bit_length_lt [of n] a show False by linarith
  qed
  ultimately show ?thesis by simp
qed


lemma round_half_even_lower: "(v div 2 ^ e) * 2 ^ e \<le> round_half_even e v"
  by (simp add: round_half_even_def Let_def)

lemma round_half_even_upper: "round_half_even e v \<le> (v div 2 ^ e + 1) * 2 ^ e"
  by (simp add: round_half_even_def Let_def)

lemma round_half_even_fix: "2 ^ e dvd v \<Longrightarrow> round_half_even e v = v"
  by (auto simp: round_half_even_def Let_def mod_eq_0_iff_dvd)

lemma round_half_even_mono:
  assumes "x \<le> y"
  shows "round_half_even e x \<le> round_half_even e y"
proof -
  have q: "x div 2 ^ e \<le> y div 2 ^ e" using assms by (rule div_le_mono)
  show ?thesis
  proof (cases "x div 2 ^ e = y div 2 ^ e")
    case True
    have "x = (x div 2 ^ e) * 2 ^ e + x mod 2 ^ e" by (rule div_mult_mod_eq [symmetric])
    moreover have "y = (x div 2 ^ e) * 2 ^ e + y mod 2 ^ e" unfolding True by (rule div_mult_mod_eq [symmetric])
    ultimately have "x mod 2 ^ e \<le> y mod 2 ^ e" using assms by linarith
    then show ?thesis using True
      by (auto simp: round_half_even_def Let_def)
  next
    case False
    with q have "x div 2 ^ e + 1 \<le> y div 2 ^ e" by simp
    then have "(x div 2 ^ e + 1) * 2 ^ e \<le> (y div 2 ^ e) * 2 ^ e"
      by (rule mult_le_mono1)
    with round_half_even_upper [of e x] round_half_even_lower [of y e]
    show ?thesis by linarith
  qed
qed

lemma round53_exact: "v \<le> 2 ^ 53 \<Longrightarrow> round53 v = v"
proof (cases "v = 2 ^ 53")
  case True
  have "bit_length v = Suc 53" unfolding True by (rule bit_length_eq) simp_all
  then show ?thesis by (simp add: round53_def round_half_even_fix True)
next
  case False
  assume "v \<le> 2 ^ 53"
  with False have "v < 2 ^ 53" by simp
  then have "bit_length v \<le> 53" by (rule bit_length_le)
  then show ?thesis by (simp add: round53_def round_half_even_def)
qed

lemma round53_mono:
  assumes "x \<le> y"
  shows "round53 x \<le> round53 y"
proof (cases "bit_length x - 53 = bit_length y - 53")
  case True
  then show ?thesis using assms by (simp add: round53_def round_half_even_mono)
next
  case False
  define ex where "ex = bit_length x - 53"
  define ey where "ey = bit_length y - 53"
  have "bit_length x \<le> bit_length y" using assms by (rule bit_length_mono)
  with False have lt: "bit_length x < bit_length y" and big: "53 < bit_length y"
    by auto
  then have ypos: "0 < y" by (cases "y = 0") (simp_all add: bit_length.simps)
  have bx: "bit_length x \<le> 53 + ex" by (simp add: ex_def)
  have "x < 2 ^ bit_length x" by (rule bit_length_lt)
  also have "\<dots> \<le> 2 ^ (53 + ex)" using bx by (simp add: power_increasing)
  finally have "x \<le> 2 ^ (53 + ex)" by simp
  then have "round_half_even ex x \<le> round_half_even ex (2 ^ (53 + ex))"
    by (rule round_half_even_mono)
  also have "\<dots> = 2 ^ (53 + ex)"
    by (rule round_half_even_fix) (simp add: power_add)
  also have "\<dots> \<le> 2 ^ (bit_length y - 1)"
    using lt bx big by (intro power_increasing) (auto simp: ex_def)
  also have "\<dots> = round_half_even ey (2 ^ (bit_length y - 1))"
    by (rule round_half_even_fix [symmetric]) (auto simp: ey_def intro: le_imp_power_dvd)
  also have "\<dots> \<le> round_half_even ey y"
    by (rule round_half_even_mono) (rule bit_length_ge [OF ypos])
  finally show ?thesis by (simp add: round53_def ex_def ey_def)
qed

lemma float64_round_exact: "0 \<le> v \<Longrightarrow> v \<le> 2 ^ 53 \<Longrightarrow> float64_round v = v"
proof -
  assume a: "0 \<le> v" and b: "v \<le> 2 ^ 53"
  have "nat v \<le> 2 ^ 53" using b by (simp add: nat_le_iff)
  then show ?thesis using a by (simp add: float64_round_def round53_exact)
qed

lemma float64_round_nonneg: "0 \<le> v \<Longrightarrow> 0 \<le> float64_round v"
  by (simp add: float64_round_def)

lemma float64_round_mono: "0 \<le> x \<Longrightarrow> x \<le> y \<Longrightarrow> float64_round x \<le> float64_round y"
  by (simp add: float64_round_def round53_mono nat_mono)

lemma round53_pow63: "round53 9223372036854775808 = 9223372036854775808"
proof -
  have "bit_length 9223372036854775808 = Suc 63" by (rule bit_length_eq) simp_all
  then show ?thesis by (simp add: round53_def round_half_even_def)
qed






lemma sint32_lt: "sint (x :: int32) \<le> 2147483647"
  using sint_lt [of x] by simp

lemma float64_round_pow63: "float64_round 9223372036854775808 = 9223372036854775808"
  using round53_pow63 by (simp add: float64_round_def)

lemma formula_bound:
  assumes "lo \<le> 2147483647" "hi \<le> 2147483647"
  shows "4294967295 * lo + 2 * hi \<le> (9223372036854775808 :: int)"
  using assms by simp

lemma product_bound:
  assumes "lo \<le> 2147483647"
  shows "4294967295 * lo \<le> (9223372032559808512 :: int)"
  using assms by simp

lemma round53_product_bound: "round53 9223372032559808512 = 9223372032559808512"
proof -
  have "bit_length 9223372032559808512 = Suc 62" by (rule bit_length_eq) simp_all
  then show ?thesis by (simp add: round53_def round_half_even_def)
qed

lemma float64_round_product_bound: "float64_round 9223372032559808512 = 9223372032559808512"
  using round53_product_bound by (simp add: float64_round_def)

lemma twice_exact: "0 \<le> hi \<Longrightarrow> hi \<le> 2147483647 \<Longrightarrow> float64_round (2 * hi) = 2 * hi"
  by (rule float64_round_exact) simp_all

lemma float64_sum_mono:
  assumes "0 \<le> lo" "lo \<le> lo'" "lo' \<le> 2147483647" "0 \<le> hi" "hi \<le> hi'" "hi' \<le> 2147483647"
  shows "float64_sum f lo hi \<le> float64_sum f lo' hi'"
proof -
  have t: "float64_round (2 * hi) = 2 * hi" "float64_round (2 * hi') = 2 * hi'"
    using assms by (simp_all add: twice_exact)
  have p: "4294967295 * lo \<le> 4294967295 * lo'" using assms by simp
  show ?thesis
  proof (cases f)
    case True
    have "float64_round (4294967295 * lo + 2 * hi) \<le> float64_round (4294967295 * lo' + 2 * hi')"
      using assms p by (intro float64_round_mono) simp_all
    with True t show ?thesis by (simp add: float64_sum_def)
  next
    case False
    have a: "0 \<le> float64_round (4294967295 * lo)"
      using assms by (intro float64_round_nonneg) simp
    have b: "float64_round (4294967295 * lo) \<le> float64_round (4294967295 * lo')"
      using assms p by (intro float64_round_mono) simp_all
    have "float64_round (float64_round (4294967295 * lo) + 2 * hi)
            \<le> float64_round (float64_round (4294967295 * lo') + 2 * hi')"
      using a b assms by (intro float64_round_mono) simp_all
    with False t show ?thesis by (simp add: float64_sum_def)
  qed
qed

lemma float64_sum_nonneg:
  assumes "0 \<le> lo" "0 \<le> hi"
  shows "0 \<le> float64_sum f lo hi"
proof -
  have "0 \<le> float64_round (4294967295 * lo)" using assms by (intro float64_round_nonneg) simp
  moreover have "0 \<le> float64_round (2 * hi)" using assms by (intro float64_round_nonneg) simp
  ultimately show ?thesis using assms
    by (auto simp: float64_sum_def intro!: float64_round_nonneg)
qed

lemma float64_sum_upper:
  assumes "0 \<le> lo" "lo \<le> 2147483647" "0 \<le> hi" "hi \<le> 2147483647"
  shows "float64_sum f lo hi \<le> 9223372036854775808"
proof -
  have t: "float64_round (2 * hi) = 2 * hi" using assms by (simp add: twice_exact)
  show ?thesis
  proof (cases f)
    case True
    have "float64_round (4294967295 * lo + 2 * hi) \<le> float64_round 9223372036854775808"
      using assms by (intro float64_round_mono) simp_all
    with True t show ?thesis by (simp add: float64_sum_def float64_round_pow63)
  next
    case False
    have "float64_round (4294967295 * lo) \<le> float64_round 9223372032559808512"
      using assms by (intro float64_round_mono) simp_all
    then have b: "float64_round (4294967295 * lo) \<le> 9223372032559808512"
      by (simp add: float64_round_product_bound)
    have a: "0 \<le> float64_round (4294967295 * lo)"
      using assms by (intro float64_round_nonneg) simp
    have "float64_round (float64_round (4294967295 * lo) + 2 * hi) \<le> float64_round 9223372036854775808"
      using a b assms by (intro float64_round_mono) simp_all
    with False t show ?thesis by (simp add: float64_sum_def float64_round_pow63)
  qed
qed


lemma getPriority_float64_sum:
  "getPriority a lp rp =
     float64_to_uint64 a (float64_sum (fused a) (min (sint rp) (sint lp)) (max (sint rp) (sint lp)))"
  by (simp add: getPriority_def float64_sum_def Let_def)

lemma uint64_of_int_mono:
  "0 \<le> x \<Longrightarrow> x \<le> y \<Longrightarrow> y < 2 ^ 64 \<Longrightarrow> (word_of_int x :: uint64) \<le> word_of_int y"
  by (simp add: word_le_def uint_word_of_int take_bit_int_eq_self)


lemma getPriority_zero: "getPriority a 0 0 = 0"
  by (simp add: getPriority_def float64_round_def round53_exact float64_to_uint64_def)

lemma getPriority_scenario: "getPriority a 100 200 = 429496729900"
  by (simp add: getPriority_def float64_round_def round53_exact float64_to_uint64_def)

lemma getPriority_neg_wrapping:
  "getPriority arch_wrapping 0 0xFFFFFFFF = 18446744069414584321"
  "getPriority arch_wrapping 0xFFFFFFFF 0xFFFFFFFF = 18446744069414584319"
  by (simp_all add: getPriority_def arch_wrapping_def float64_to_uint64_def float64_round_def
        round53_exact)

lemma getPriority_neg_saturating:
  "getPriority arch_saturating 1 1 = 4294967297"
  "getPriority arch_saturating 1 0xFFFFFFFF = 0"
  by (simp_all add: getPriority_def arch_saturating_def float64_to_uint64_def float64_round_def
        round53_exact)

section \<open>The priority scorer\<close>




text \<open>
  C4. Swapping the two arguments of the priority scorer never changes the result: for
  all 32-bit arguments and every implementation.
\<close>

theorem getPriority_symmetric: "getPriority ar a b = getPriority ar b a"
  by (simp add: getPriority_def min.commute max.commute)

theorem getPriority_symmetric_witness:
  "getPriority arch_wrapping 100 200 = getPriority arch_wrapping 200 100
   \<and> getPriority arch_saturating 0xFFFFFFFF 7 = getPriority arch_saturating 7 0xFFFFFFFF"
  using getPriority_symmetric [where ar = arch_wrapping and a = 100 and b = 200]
        getPriority_symmetric [where ar = arch_saturating and a = "0xFFFFFFFF" and b = 7]
  by simp

text \<open>
  C5, as the code has it. For non-negative \<open>int32\<close> arguments the priority scorer is
  monotonically non-decreasing in the smaller and in the larger argument: when neither
  the minimum nor the maximum decreases, the score does not decrease. Taking one of the
  two equal gives monotonicity in each independently.
\<close>

theorem getPriority_mono:
  assumes "0 \<le> sint a" "0 \<le> sint b" "0 \<le> sint a'" "0 \<le> sint b'"
    and "min (sint a) (sint b) \<le> min (sint a') (sint b')"
    and "max (sint a) (sint b) \<le> max (sint a') (sint b')"
  shows "getPriority ar a b \<le> getPriority ar a' b'"
proof -
  let ?lo = "min (sint b) (sint a)" and ?hi = "max (sint b) (sint a)"
  let ?lo' = "min (sint b') (sint a')" and ?hi' = "max (sint b') (sint a')"
  have bounds: "0 \<le> ?lo" "?lo' \<le> 2147483647" "0 \<le> ?hi" "?hi' \<le> 2147483647"
    using assms(1-4) sint32_lt [of a'] sint32_lt [of b'] by simp_all
  have le: "?lo \<le> ?lo'" "?hi \<le> ?hi'"
    using assms(5,6) by (simp_all add: min.commute max.commute)
  have m: "float64_sum (fused ar) ?lo ?hi \<le> float64_sum (fused ar) ?lo' ?hi'"
    using bounds le by (intro float64_sum_mono)
  have n: "0 \<le> float64_sum (fused ar) ?lo ?hi"
    using bounds by (intro float64_sum_nonneg)
  have "0 \<le> ?lo'" "0 \<le> ?hi'" using assms(3,4) by simp_all
  then have "float64_sum (fused ar) ?lo' ?hi' \<le> 9223372036854775808"
    using bounds by (intro float64_sum_upper)
  then have u: "float64_sum (fused ar) ?lo' ?hi' < 2 ^ 64" by simp
  from m u have u0: "float64_sum (fused ar) ?lo ?hi < 2 ^ 64" by simp
  from n m have n': "0 \<le> float64_sum (fused ar) ?lo' ?hi'" by simp
  show ?thesis
    unfolding getPriority_float64_sum
    using n n' u u0 m by (simp add: float64_to_uint64_def uint64_of_int_mono)
qed

theorem getPriority_mono_witness:
  "getPriority arch_wrapping 100 200 \<le> getPriority arch_wrapping 300 150
   \<and> getPriority arch_saturating 0x7FFFFFFE 5 \<le> getPriority arch_saturating 5 0x7FFFFFFF"
  using getPriority_mono [where a = 100 and b = 200 and a' = 300 and b' = 150 and ar = arch_wrapping]
        getPriority_mono [where a = "0x7FFFFFFE" and b = 5 and a' = 5 and b' = "0x7FFFFFFF"
                            and ar = arch_saturating]
  by simp

text \<open>
  C5 as stated, for all unsigned 32-bit inputs, fails: a value from \<open>2^31\<close> on reaches
  the \<open>int32\<close> parameter as a negative number, the \<open>float64\<close> sum is negative, and its
  conversion to \<open>uint64\<close> is out of range. With the wrapping conversion, raising the
  minimum from \<open>0\<close> to \<open>0xFFFFFFFF\<close> under the maximum \<open>0xFFFFFFFF\<close> lowers the score;
  with the saturating conversion, raising the maximum from \<open>1\<close> to \<open>0xFFFFFFFF\<close> over
  the minimum \<open>1\<close> lowers the score to \<open>0\<close>.
\<close>

theorem getPriority_mono_counterexample:
  "(min (unat (0 :: int32)) (unat (0xFFFFFFFF :: int32))
      \<le> min (unat (0xFFFFFFFF :: int32)) (unat (0xFFFFFFFF :: int32))
    \<and> max (unat (0 :: int32)) (unat (0xFFFFFFFF :: int32))
      = max (unat (0xFFFFFFFF :: int32)) (unat (0xFFFFFFFF :: int32))
    \<and> \<not> getPriority arch_wrapping 0 0xFFFFFFFF \<le> getPriority arch_wrapping 0xFFFFFFFF 0xFFFFFFFF)
   \<and> (min (unat (1 :: int32)) (unat (1 :: int32))
        = min (unat (1 :: int32)) (unat (0xFFFFFFFF :: int32))
      \<and> max (unat (1 :: int32)) (unat (1 :: int32))
        \<le> max (unat (1 :: int32)) (unat (0xFFFFFFFF :: int32))
      \<and> \<not> getPriority arch_saturating 1 1 \<le> getPriority arch_saturating 1 0xFFFFFFFF)"
  by (simp add: getPriority_neg_wrapping getPriority_neg_saturating)

section \<open>The pair report builder\<close>

lemma getSetCandidates_loop_eq:
  "getSetCandidates_loop a scs ncps acc = acc @ map (pairReport a scs) ncps"
  by (induction ncps arbitrary: acc) simp_all

lemma getSetCandidates_eq:
  "getSetCandidates a scs =
     replicate (length (nominatedCandidatePairs scs)) INil
     @ map (pairReport a scs) (nominatedCandidatePairs scs)"
  by (simp add: getSetCandidates_def getSetCandidates_loop_eq)

lemma getSetCandidates_length:
  "length (getSetCandidates a scs) = 2 * length (nominatedCandidatePairs scs)"
  by (simp add: getSetCandidates_eq)

lemma getSetCandidates_scenario:
  "getSetCandidates a scenario
   = [INil,
      ISlice [IUint64 429496729900,
              INetworkType 0, IString [], ICandidateType 0, IString [], IInt32 0, IString [],
              INetworkType 0, IString [], ICandidateType 0, IString [], IInt32 0, IString []]]"
  by (simp add: scenario_def getSetCandidates_eq pairReport_def getCandidateStats_def
        ICECandidateStats_zero_def getPriority_scenario)

text \<open>
  C1 states that a snapshot with \<open>N\<close> nominated pairs gives exactly \<open>N\<close> reports. The
  code returns \<open>2 * N\<close> entries (\<open>getSetCandidates_length\<close>): the slice is made with
  length \<open>N\<close>, not with capacity \<open>N\<close>, so the \<open>N\<close> reports are appended after \<open>N\<close>
  \<open>nil\<close> entries (\<open>getSetCandidates_eq\<close>). On the snapshot with no candidate and the
  one nominated pair \<open>(L1, R1)\<close> the result has two entries, \<open>nil\<close> and the report
  of the unresolved pair.
\<close>

theorem getSetCandidates_unresolved_pair:
  "getSetCandidates a
     \<lparr>candidates = [], nominatedCandidatePairs = [\<lparr>localID = ''L1'', remoteID = ''R1''\<rparr>]\<rparr>
   = [INil,
      ISlice [IUint64 0,
              INetworkType 0, IString [], ICandidateType 0, IString [], IInt32 0, IString [],
              INetworkType 0, IString [], ICandidateType 0, IString [], IInt32 0, IString []]]"
  by (simp add: getSetCandidates_eq pairReport_def getCandidateStats_def
        ICECandidateStats_zero_def getPriority_zero)

text \<open>
  C3, as the code has it. On the snapshot with candidates \<open>L1\<close> (priority 100) and
  \<open>R1\<close> (priority 200) and the nominated pair \<open>(L1, R1)\<close>, the reports in the result
  (its entries other than \<open>nil\<close>) are one report, and its priority is
  \<open>429496729900 = (2^32 - 1) * 100 + 2 * 200\<close>.
\<close>

theorem scenario_priority:
  "filter (\<lambda>x. x \<noteq> INil) (getSetCandidates a scenario)
   = [ISlice [IUint64 429496729900,
              INetworkType 0, IString [], ICandidateType 0, IString [], IInt32 0, IString [],
              INetworkType 0, IString [], ICandidateType 0, IString [], IInt32 0, IString []]]
   \<and> (429496729900 :: int) = (2 ^ 32 - 1) * 100 + 2 * 200"
  by (simp add: getSetCandidates_scenario)

text \<open>
  C3 as stated fails: no entry of the result carries the priority \<open>429496730300\<close>.
\<close>

theorem scenario_priority_counterexample:
  "\<not> (\<exists>x \<in> set (getSetCandidates arch_wrapping scenario). report_priority x = Some 429496730300)
   \<and> \<not> (\<exists>x \<in> set (getSetCandidates arch_saturating scenario).
           report_priority x = Some 429496730300)"
  by (simp add: getSetCandidates_scenario report_priority_def)

section \<open>The signaling handler\<close>

lemma fired_Suc: "fired e t \<Longrightarrow> fired e (Suc t)"
  by (auto simp: fired_def split: option.splits)

lemma barrier_inv_init: "barrier_inv e doSignaling_init"
  by (simp add: barrier_inv_def doSignaling_init_def)

lemma barrier_inv_step:
  assumes "barrier_inv e s"
  shows "barrier_inv e (doSignaling_step e body s)"
proof (cases "loc s")
  case AtAwaitGatherComplete
  with assms show ?thesis
    by (auto simp: barrier_inv_def doSignaling_step.simps goto_def fired_Suc)
next
  case (AtWrite response)
  with assms show ?thesis
    by (auto simp: barrier_inv_def doSignaling_step.simps goto_def fired_Suc split: option.splits)
qed (use assms in \<open>auto simp: barrier_inv_def doSignaling_step.simps goto_def fired_Suc
       split: option.splits sum.splits\<close>)

lemma barrier_inv_run: "barrier_inv e (doSignaling e body n)"
  by (induction n) (simp_all add: barrier_inv_init barrier_inv_step)

lemma example_run:
  "doSignaling (example_env (Some 8)) [123] 12
   = \<lparr>loc = Returned, clock = 12, headers = [(''Content-Type'', ''application/json'')],
      written = [(11, [1, 2, 3])]\<rparr>"
  by (simp add: eval_nat_numeral doSignaling_init_def doSignaling_step.simps goto_def
        example_env_def fired_def)

lemma example_parked:
  "written (doSignaling (example_env None) [123] 40) = []
   \<and> loc (doSignaling (example_env None) [123] 40) = AtAwaitGatherComplete"
  by (simp add: eval_nat_numeral doSignaling_init_def doSignaling_step.simps goto_def
        example_env_def fired_def)

text \<open>
  C8. In every execution of the handler, whatever the outcomes of the external calls, a
  call of \<open>w.Write\<close> is made only at an instant at which the gathering-complete promise
  has already fired: the response body is never written before candidate discovery has
  reported completion.
\<close>

theorem write_only_after_gather_complete:
  "(t, b) \<in> set (written (doSignaling e body n)) \<Longrightarrow> \<exists>g. gathered_at e = Some g \<and> g \<le> t"
  using barrier_inv_run [of e body n]
  by (auto simp: barrier_inv_def fired_def split: option.splits)

theorem write_only_after_gather_complete_witness:
  "(11, [1, 2, 3]) \<in> set (written (doSignaling (example_env (Some 8)) [123] 12))
   \<and> (\<exists>g. gathered_at (example_env (Some 8)) = Some g \<and> g \<le> 11)"
  using write_only_after_gather_complete
          [where t = 11 and b = "[1, 2, 3]" and e = "example_env (Some 8)" and body = "[123]"
             and n = 12]
  by (simp add: example_run)




end
